theory Spec2Isabelle
  imports Complex_Main "HOL-Library.Word"
begin

unbundle bit_operations_syntax

section \<open>JavaScript strings and buffers\<close>

text \<open>
  A JavaScript string is a sequence of UTF-16 code units; \<open>length\<close>, \<open>substring\<close>,
  \<open>split('')\<close> and the regular expressions below (none has the \<open>u\<close> flag) all work on
  code units. A \<open>Buffer\<close> or \<open>Uint8Array\<close> is a sequence of bytes.
\<close>

type_synonym jschar = "16 word"
type_synonym jsstring = "jschar list"
type_synonym byte = "8 word"

definition str :: "string \<Rightarrow> jsstring" where
  \<comment> \<open>a string literal of the source, as code units\<close>
  "str s = map (\<lambda>c. of_nat (of_char c)) s"

abbreviation (input) CHAR_DOT :: jschar where "CHAR_DOT \<equiv> 0x2E"
abbreviation (input) CHAR_FORWARD_SLASH :: jschar where "CHAR_FORWARD_SLASH \<equiv> 0x2F"
abbreviation (input) CHAR_BACKWARD_SLASH :: jschar where "CHAR_BACKWARD_SLASH \<equiv> 0x5C"
abbreviation (input) CHAR_SPACE :: jschar where "CHAR_SPACE \<equiv> 0x20"

fun nth_opt :: "'a list \<Rightarrow> nat \<Rightarrow> 'a option" where
  \<comment> \<open>\<open>xs[i]\<close>: \<open>undefined\<close> (here \<open>None\<close>) out of range\<close>
  "nth_opt [] i = None"
| "nth_opt (x # xs) 0 = Some x"
| "nth_opt (x # xs) (Suc i) = nth_opt xs i"

fun startsWith :: "'a list \<Rightarrow> 'a list \<Rightarrow> bool" where
  \<comment> \<open>\<open>s.startsWith(p)\<close>\<close>
  "startsWith s [] = True"
| "startsWith [] (p # ps) = False"
| "startsWith (c # s) (p # ps) = (c = p \<and> startsWith s ps)"

definition endsWith :: "'a list \<Rightarrow> 'a list \<Rightarrow> bool" where
  "endsWith s p = startsWith (rev s) (rev p)"

fun str_includes :: "'a list \<Rightarrow> 'a list \<Rightarrow> bool" where
  \<comment> \<open>the literal \<open>p\<close> occurs somewhere in \<open>s\<close>\<close>
  "str_includes [] p = (p = [])"
| "str_includes (c # s) p = (startsWith (c # s) p \<or> str_includes s p)"

definition isWhiteSpace :: "jschar \<Rightarrow> bool" where
  \<comment> \<open>the class \<open>\s\<close>, which is also what \<open>trim()\<close> removes: WhiteSpace and LineTerminator\<close>
  "isWhiteSpace c \<longleftrightarrow>
     c = 0x09 \<or> c = 0x0A \<or> c = 0x0B \<or> c = 0x0C \<or> c = 0x0D \<or> c = 0x20 \<or> c = 0xA0 \<or>
     c = 0x1680 \<or> (0x2000 \<le> c \<and> c \<le> 0x200A) \<or> c = 0x2028 \<or> c = 0x2029 \<or>
     c = 0x202F \<or> c = 0x205F \<or> c = 0x3000 \<or> c = 0xFEFF"

definition trim :: "jsstring \<Rightarrow> jsstring" where
  "trim s = rev (dropWhile isWhiteSpace (rev (dropWhile isWhiteSpace s)))"

definition toLowerAscii :: "jschar \<Rightarrow> jschar" where
  \<comment> \<open>case folding of an \<open>/i\<close> pattern without the \<open>u\<close> flag, against an ASCII literal: only
      \<open>A\<close>..\<open>Z\<close> match their lower-case letters (a code unit above 127 never matches one below)\<close>
  "toLowerAscii c = (if 0x41 \<le> c \<and> c \<le> 0x5A then c + 0x20 else c)"

datatype regex = Regex jsstring bool
  \<comment> \<open>a literal pattern and its \<open>i\<close> flag: the only regular expressions of the patterns table\<close>

fun regex_test :: "regex \<Rightarrow> jsstring \<Rightarrow> bool" where
  \<comment> \<open>\<open>pattern.test(s)\<close>; no pattern has the \<open>g\<close> flag, so the test keeps no state\<close>
  "regex_test (Regex lit ic) s = str_includes (if ic then map toLowerAscii s else s) lit"

section \<open>The path module (POSIX)\<close>

text \<open>
  The source calls \<open>path.normalize\<close>, \<open>path.resolve\<close>, \<open>path.join\<close>, \<open>path.dirname\<close> and
  \<open>path.basename\<close> of the runtime. They are modelled for a POSIX host: the separator is
  \<open>/\<close>, a path is absolute when it starts with it.
\<close>

fun splitOn :: "'a \<Rightarrow> 'a list \<Rightarrow> 'a list list" where
  "splitOn sep [] = [[]]"
| "splitOn sep (c # cs) =
     (if c = sep then [] # splitOn sep cs
      else (case splitOn sep cs of [] \<Rightarrow> [[c]] | s # ss \<Rightarrow> (c # s) # ss))"

fun joinWith :: "'a \<Rightarrow> 'a list list \<Rightarrow> 'a list" where
  "joinWith sep [] = []"
| "joinWith sep [s] = s"
| "joinWith sep (s # t # ss) = s @ sep # joinWith sep (t # ss)"

fun normSegments :: "bool \<Rightarrow> jsstring list \<Rightarrow> jsstring list \<Rightarrow> jsstring list" where
  \<comment> \<open>the segments kept so far are held last first\<close>
  "normSegments allowAboveRoot res [] = rev res"
| "normSegments allowAboveRoot res (s # ss) =
     (if s = [] \<or> s = [CHAR_DOT] then normSegments allowAboveRoot res ss
      else if s = [CHAR_DOT, CHAR_DOT] then
        (case res of
           [] \<Rightarrow> normSegments allowAboveRoot (if allowAboveRoot then [s] else []) ss
         | t # ts \<Rightarrow>
             if t \<noteq> [CHAR_DOT, CHAR_DOT] then normSegments allowAboveRoot ts ss
             else normSegments allowAboveRoot (if allowAboveRoot then s # res else res) ss)
      else normSegments allowAboveRoot (s # res) ss)"

definition normalizeString :: "jsstring \<Rightarrow> bool \<Rightarrow> jsstring" where
  "normalizeString p allowAboveRoot =
     joinWith CHAR_FORWARD_SLASH (normSegments allowAboveRoot [] (splitOn CHAR_FORWARD_SLASH p))"

definition isAbsolute :: "jsstring \<Rightarrow> bool" where
  "isAbsolute p = (nth_opt p 0 = Some CHAR_FORWARD_SLASH)"

definition path_normalize :: "jsstring \<Rightarrow> jsstring" where
  "path_normalize p =
     (if p = [] then [CHAR_DOT]
      else
        let trailingSeparator = (last p = CHAR_FORWARD_SLASH);
            n = normalizeString p (\<not> isAbsolute p)
        in if n = [] then
             (if isAbsolute p then [CHAR_FORWARD_SLASH]
              else if trailingSeparator then [CHAR_DOT, CHAR_FORWARD_SLASH] else [CHAR_DOT])
           else
             (let n' = (if trailingSeparator then n @ [CHAR_FORWARD_SLASH] else n)
              in if isAbsolute p then CHAR_FORWARD_SLASH # n' else n'))"

definition path_resolve :: "jsstring \<Rightarrow> jsstring \<Rightarrow> jsstring" where
  \<comment> \<open>\<open>path.resolve(p)\<close> with one argument; \<open>cwd\<close> is \<open>process.cwd()\<close>\<close>
  "path_resolve cwd p =
     (let resolvedAbsolute = (if isAbsolute p then True else isAbsolute cwd);
          resolvedPath =
            (if p = [] then cwd @ [CHAR_FORWARD_SLASH]
             else if isAbsolute p then p @ [CHAR_FORWARD_SLASH]
             else cwd @ CHAR_FORWARD_SLASH # p @ [CHAR_FORWARD_SLASH]);
          n = normalizeString resolvedPath (\<not> resolvedAbsolute)
      in if resolvedAbsolute then CHAR_FORWARD_SLASH # n
         else if n \<noteq> [] then n else [CHAR_DOT])"

definition path_join :: "jsstring list \<Rightarrow> jsstring" where
  "path_join args =
     (let parts = filter (\<lambda>a. a \<noteq> []) args
      in if parts = [] then [CHAR_DOT]
         else path_normalize (joinWith CHAR_FORWARD_SLASH parts))"

definition path_basename :: "jsstring \<Rightarrow> jsstring" where
  \<comment> \<open>trailing separators are dropped, then what follows the last separator is kept\<close>
  "path_basename p =
     rev (takeWhile (\<lambda>c. c \<noteq> CHAR_FORWARD_SLASH)
            (dropWhile (\<lambda>c. c = CHAR_FORWARD_SLASH) (rev p)))"

definition path_dirname :: "jsstring \<Rightarrow> jsstring" where
  \<comment> \<open>the scan runs from the end down to index 1: trailing separators are skipped, the
      last component is skipped, and the path is cut at the separator found there\<close>
  "path_dirname p =
     (case p of
        [] \<Rightarrow> [CHAR_DOT]
      | c # cs \<Rightarrow>
          let hasRoot = (c = CHAR_FORWARD_SLASH);
              r = dropWhile (\<lambda>x. x \<noteq> CHAR_FORWARD_SLASH)
                    (dropWhile (\<lambda>x. x = CHAR_FORWARD_SLASH) (rev cs))
          in if r = [] then (if hasRoot then [CHAR_FORWARD_SLASH] else [CHAR_DOT])
             else if hasRoot \<and> length r = 1 then [CHAR_FORWARD_SLASH, CHAR_FORWARD_SLASH]
             else c # rev (tl r))"


section \<open>Text codecs of the runtime\<close>

text \<open>
  \<open>Buffer.from(s)\<close> and \<open>Buffer.byteLength(s)\<close> encode a string as UTF-8 (an unpaired
  surrogate becomes U+FFFD); \<open>new TextDecoder('utf-8').decode\<close> and \<open>buf.toString()\<close>
  decode UTF-8, every ill-formed subsequence giving U+FFFD, and the former drops one
  leading byte-order mark; \<open>Buffer.from(s, 'base64')\<close> skips the characters outside the
  alphabet and stops at the first \<open>=\<close>.
\<close>

definition utf8_of_codepoint :: "nat \<Rightarrow> byte list" where
  "utf8_of_codepoint cp =
     (if cp < 0x80 then [of_nat cp]
      else if cp < 0x800 then [of_nat (0xC0 + cp div 64), of_nat (0x80 + cp mod 64)]
      else if cp < 0x10000 then
        [of_nat (0xE0 + cp div 4096), of_nat (0x80 + cp div 64 mod 64), of_nat (0x80 + cp mod 64)]
      else
        [of_nat (0xF0 + cp div 262144), of_nat (0x80 + cp div 4096 mod 64),
         of_nat (0x80 + cp div 64 mod 64), of_nat (0x80 + cp mod 64)])"

definition isHighSurrogate :: "jschar \<Rightarrow> bool" where
  "isHighSurrogate c \<longleftrightarrow> 0xD800 \<le> c \<and> c \<le> 0xDBFF"

definition isLowSurrogate :: "jschar \<Rightarrow> bool" where
  "isLowSurrogate c \<longleftrightarrow> 0xDC00 \<le> c \<and> c \<le> 0xDFFF"

fun utf8_encode :: "jsstring \<Rightarrow> byte list" where
  "utf8_encode [] = []"
| "utf8_encode (c # cs) =
     (if isHighSurrogate c then
        (case cs of
           [] \<Rightarrow> utf8_of_codepoint 0xFFFD
         | d # ds \<Rightarrow>
             if isLowSurrogate d
             then utf8_of_codepoint (0x10000 + (unat c - 0xD800) * 1024 + (unat d - 0xDC00))
                  @ utf8_encode ds
             else utf8_of_codepoint 0xFFFD @ utf8_encode cs)
      else if isLowSurrogate c then utf8_of_codepoint 0xFFFD @ utf8_encode cs
      else utf8_of_codepoint (unat c) @ utf8_encode cs)"

definition utf16_of_codepoint :: "nat \<Rightarrow> jsstring" where
  "utf16_of_codepoint cp =
     (if cp < 0x10000 then [of_nat cp]
      else [of_nat (0xD800 + (cp - 0x10000) div 1024), of_nat (0xDC00 + (cp - 0x10000) mod 1024)])"

definition utf8_lead :: "byte \<Rightarrow> jsstring \<times> nat \<times> nat \<times> nat \<times> nat" where
  \<comment> \<open>a byte read when no sequence is open: what is emitted, then the code point so far,
      the continuation bytes still needed and the range allowed for the next one\<close>
  "utf8_lead b =
     (let n = unat b in
      if n < 0x80 then ([ucast b], 0, 0, 0x80, 0xBF)
      else if 0xC2 \<le> n \<and> n \<le> 0xDF then ([], n mod 32, 1, 0x80, 0xBF)
      else if 0xE0 \<le> n \<and> n \<le> 0xEF then
        ([], n mod 16, 2, if n = 0xE0 then 0xA0 else 0x80, if n = 0xED then 0x9F else 0xBF)
      else if 0xF0 \<le> n \<and> n \<le> 0xF4 then
        ([], n mod 8, 3, if n = 0xF0 then 0x90 else 0x80, if n = 0xF4 then 0x8F else 0xBF)
      else ([0xFFFD], 0, 0, 0x80, 0xBF))"

fun utf8_dec :: "nat \<Rightarrow> nat \<Rightarrow> nat \<Rightarrow> nat \<Rightarrow> byte list \<Rightarrow> jsstring" where
  "utf8_dec cp needed lo hi [] = (if needed = 0 then [] else [0xFFFD])"
| "utf8_dec cp needed lo hi (b # bs) =
     (if needed = 0 then
        (case utf8_lead b of (out, cp', needed', lo', hi') \<Rightarrow> out @ utf8_dec cp' needed' lo' hi' bs)
      else if unat b < lo \<or> hi < unat b then
        (case utf8_lead b of
           (out, cp', needed', lo', hi') \<Rightarrow> 0xFFFD # out @ utf8_dec cp' needed' lo' hi' bs)
      else if needed = 1 then
        utf16_of_codepoint (cp * 64 + unat b mod 64) @ utf8_dec 0 0 0x80 0xBF bs
      else utf8_dec (cp * 64 + unat b mod 64) (needed - 1) 0x80 0xBF bs)"

definition buffer_toString :: "byte list \<Rightarrow> jsstring" where
  "buffer_toString bs = utf8_dec 0 0 0x80 0xBF bs"

definition textDecode :: "byte list \<Rightarrow> jsstring" where
  "textDecode bs =
     utf8_dec 0 0 0x80 0xBF (if startsWith bs [0xEF, 0xBB, 0xBF] then drop 3 bs else bs)"

definition unbase64 :: "jschar \<Rightarrow> nat option" where
  "unbase64 c =
     (if 0x41 \<le> c \<and> c \<le> 0x5A then Some (unat c - 0x41)
      else if 0x61 \<le> c \<and> c \<le> 0x7A then Some (unat c - 0x61 + 26)
      else if 0x30 \<le> c \<and> c \<le> 0x39 then Some (unat c - 0x30 + 52)
      else if c = 0x2B \<or> c = 0x2D then Some 62
      else if c = 0x2F \<or> c = 0x5F then Some 63
      else None)"

fun base64_sextets :: "jsstring \<Rightarrow> nat list" where
  "base64_sextets [] = []"
| "base64_sextets (c # cs) =
     (case unbase64 c of
        Some v \<Rightarrow> v # base64_sextets cs
      | None \<Rightarrow> if c = 0x3D then [] else base64_sextets cs)"

fun base64_bytes :: "nat list \<Rightarrow> byte list" where
  "base64_bytes (a # b # c # d # r) =
     of_nat (a * 4 + b div 16) # of_nat (b mod 16 * 16 + c div 4) # of_nat (c mod 4 * 64 + d)
       # base64_bytes r"
| "base64_bytes [a, b, c] = [of_nat (a * 4 + b div 16), of_nat (b mod 16 * 16 + c div 4)]"
| "base64_bytes [a, b] = [of_nat (a * 4 + b div 16)]"
| "base64_bytes _ = []"

definition base64_decode :: "jsstring \<Rightarrow> byte list" where
  "base64_decode s = base64_bytes (base64_sextets s)"


section \<open>Security utilities\<close>

text \<open>
  What the process fixes for one run: the working directory, and the file the security
  module is loaded from (\<open>fileURLToPath(import.meta.url)\<close> in \<open>getAppBaseDir\<close>).
\<close>

record process_env =
  cwd :: jsstring
  securityModuleFile :: jsstring

definition MAX_FILE_SIZE :: nat where
  "MAX_FILE_SIZE = 100 * 1024 * 1024"

definition MAX_PATH_LENGTH :: nat where
  "MAX_PATH_LENGTH = 4096"

definition SUSPICIOUS_PATTERNS :: "regex list" where
  "SUSPICIOUS_PATTERNS =
     [Regex (str ''..'') False,
      Regex (str ''<script'') True,
      Regex (str ''javascript:'') True,
      Regex (str ''data:text/html'') True]"

definition getAppBaseDir :: "process_env \<Rightarrow> jsstring" where
  "getAppBaseDir env =
     (let dirname = path_dirname (securityModuleFile env)
      in path_join [dirname,
           if endsWith dirname
                (path_join [str ''resources'', str ''app.asar'', str ''src'', str ''utils''])
           then str ''/../../../../''
           else str ''/../../''])"

definition normalizePath :: "jsstring \<Rightarrow> jsstring" where
  "normalizePath inputPath =
     path_normalize (filter (\<lambda>c. \<not> (c \<le> 0x1F \<or> c = 0x7F)) inputPath)"

definition isValidPath :: "process_env \<Rightarrow> jsstring \<Rightarrow> jsstring list \<Rightarrow> bool" where
  "isValidPath env filePath allowedPrefixes =
     (if length filePath > MAX_PATH_LENGTH then False
      else
        let normalized = normalizePath filePath;
            resolved = path_resolve (cwd env) normalized
        in if list_ex (\<lambda>pattern. regex_test pattern resolved) SUSPICIOUS_PATTERNS then False
           else if list_ex (\<lambda>prefix. startsWith resolved (path_resolve (cwd env) prefix))
                     allowedPrefixes
           then True
           else False)"

definition isOutsideAppDir :: "process_env \<Rightarrow> jsstring \<Rightarrow> bool" where
  "isOutsideAppDir env filePath =
     (let appBaseDir = getAppBaseDir env;
          resolved = path_resolve (cwd env) (normalizePath filePath);
          resolvedAppBase = path_resolve (cwd env) appBaseDir
      in \<not> startsWith resolved resolvedAppBase)"

function collapseWhitespace :: "jsstring \<Rightarrow> jsstring" where
  \<comment> \<open>\<open>.replace(/\s+/g, ' ')\<close>: every maximal run of white space becomes one space\<close>
  "collapseWhitespace [] = []"
| "collapseWhitespace (c # cs) =
     (if isWhiteSpace c then CHAR_SPACE # collapseWhitespace (dropWhile isWhiteSpace cs)
      else c # collapseWhitespace cs)"
  by pat_completeness auto
termination
  by (relation "measure length") (auto simp: length_dropWhile_le less_Suc_eq_le)

definition sanitizeFilename :: "jsstring \<Rightarrow> jsstring" where
  "sanitizeFilename filename =
     (let s1 = filter (\<lambda>c. c \<noteq> CHAR_FORWARD_SLASH \<and> c \<noteq> CHAR_BACKWARD_SLASH) filename;
          s2 = filter (\<lambda>c. c \<notin> set (str ''<>:\"|?*'')) s1;
          s3 = collapseWhitespace s2;
          s4 = trim s3;
          s5 = (if length s4 > 255 then take 255 s4 else s4)
      in if s5 = [] \<or> list_all (\<lambda>c. c = CHAR_DOT) s5 then str ''unnamed'' else s5)"

datatype content = Null | Str jsstring | Bytes "byte list"
  \<comment> \<open>what the callers pass as file content: \<open>null\<close>, a string, or a \<open>Buffer\<close>/\<open>Uint8Array\<close>\<close>

definition validateFileContent :: "content \<Rightarrow> bool" where
  \<comment> \<open>every caller leaves \<open>encoding\<close> undefined, so the size of a string is its UTF-8 length;
      \<open>null\<close> makes \<open>Buffer.byteLength\<close> throw, which the \<open>catch\<close> turns into \<open>false\<close>\<close>
  "validateFileContent c =
     (case c of
        Null \<Rightarrow> False
      | Bytes b \<Rightarrow> \<not> length b > MAX_FILE_SIZE
      | Str s \<Rightarrow>
          if length (utf8_encode s) > MAX_FILE_SIZE then False
          else \<not> list_ex (\<lambda>pattern. regex_test pattern s) SUSPICIOUS_PATTERNS)"

subsection \<open>Rate limiter\<close>

record rate_limiter =
  calls :: "jsstring \<rightharpoonup> int list"
  maxCalls :: nat
  windowMs :: int



definition reset :: "jsstring \<Rightarrow> rate_limiter \<Rightarrow> rate_limiter" where
  "reset key rl = rl\<lparr>calls := (calls rl)(key := None)\<rparr>"


section \<open>File service\<close>

subsection \<open>Content sniffing\<close>

definition ch :: "char \<Rightarrow> jschar" where
  \<comment> \<open>a one-character string literal of the source\<close>
  "ch x = of_nat (of_char x)"

definition contentHead :: "content \<Rightarrow> jsstring option \<Rightarrow> jsstring" where
  \<comment> \<open>the variable \<open>head\<close>\<close>
  "contentHead body enc =
     (case body of
        Null \<Rightarrow> []
      | Str s \<Rightarrow>
          if enc = Some (str ''base64'') then buffer_toString (base64_decode (take 22 s))
          else take 16 s
      | Bytes b \<Rightarrow> textDecode (take 16 b))"

definition contentHeadBinary :: "content \<Rightarrow> jsstring option \<Rightarrow> byte list" where
  \<comment> \<open>the variable \<open>headBinary\<close>\<close>
  "contentHeadBinary body enc =
     (case body of
        Null \<Rightarrow> []
      | Str s \<Rightarrow>
          if enc = Some (str ''base64'') then base64_decode (take 22 s)
          else utf8_encode (take 16 s)
      | Bytes b \<Rightarrow> take 16 b)"

definition sniffHead :: "jsstring \<Rightarrow> byte list \<Rightarrow> bool" where
  \<comment> \<open>the chain of tests on \<open>c = head.split('')\<close> and \<open>cc = Array.from(headBinary)\<close>, in
      the order of the source; a branch that does not return falls through to the next\<close>
  "sniffHead c cc =
     (if nth_opt c 0 = Some (ch CHR ''<'') \<and>
         (nth_opt c 1 = Some (ch CHR ''!'') \<or>
          (nth_opt c 1 = Some (ch CHR ''h'') \<and> nth_opt c 2 = Some (ch CHR ''t'') \<and>
           nth_opt c 3 = Some (ch CHR ''m'') \<and> nth_opt c 4 = Some (ch CHR ''l'')) \<or>
          (nth_opt c 1 = Some (ch CHR ''H'') \<and> nth_opt c 2 = Some (ch CHR ''T'') \<and>
           nth_opt c 3 = Some (ch CHR ''M'') \<and> nth_opt c 4 = Some (ch CHR ''L'')) \<or>
          (nth_opt c 1 = Some (ch CHR ''b'') \<and> nth_opt c 2 = Some (ch CHR ''o'') \<and>
           nth_opt c 3 = Some (ch CHR ''d'') \<and> nth_opt c 4 = Some (ch CHR ''y'')) \<or>
          (nth_opt c 1 = Some (ch CHR ''B'') \<and> nth_opt c 2 = Some (ch CHR ''O'') \<and>
           nth_opt c 3 = Some (ch CHR ''D'') \<and> nth_opt c 4 = Some (ch CHR ''Y'')))
      then True
      else if nth_opt c 0 = Some (ch CHR ''<'') \<and>
         nth_opt c 1 = Some (ch CHR ''?'') \<and> nth_opt c 2 = Some (ch CHR ''x'') \<and>
         nth_opt c 3 = Some (ch CHR ''m'') \<and> nth_opt c 4 = Some (ch CHR ''l'')
      then True
      else if nth_opt c 0 = Some (ch CHR ''<'') \<and>
         nth_opt c 1 = Some (ch CHR ''s'') \<and> nth_opt c 2 = Some (ch CHR ''v'') \<and>
         nth_opt c 3 = Some (ch CHR ''g'')
      then True
      else if nth_opt c 0 = Some (ch CHR ''<'') \<and>
         nth_opt c 1 = Some (ch CHR ''m'') \<and> nth_opt c 2 = Some (ch CHR ''x'')
      then True
      else if nth_opt c 0 = Some (ch CHR ''<'') \<and>
         ((nth_opt c 1 = Some (ch CHR ''i'') \<and> nth_opt c 2 = Some (ch CHR ''m'') \<and>
           nth_opt c 3 = Some (ch CHR ''g'')) \<or>
          (nth_opt c 1 = Some (ch CHR ''i'') \<and> nth_opt c 2 = Some (ch CHR ''f'') \<and>
           nth_opt c 3 = Some (ch CHR ''r'') \<and> nth_opt c 4 = Some (ch CHR ''a'') \<and>
           nth_opt c 5 = Some (ch CHR ''m'') \<and> nth_opt c 6 = Some (ch CHR ''e'')))
      then True
      else if (nth_opt cc 0 = Some 0xEF \<and> nth_opt cc 1 = Some 0xBB \<and> nth_opt cc 2 = Some 0xBF) \<and>
         (nth_opt c 3 = Some (ch CHR ''<'') \<and> nth_opt c 4 = Some (ch CHR ''?'') \<and>
          nth_opt c 5 = Some (ch CHR ''x''))
      then True
      else if (nth_opt cc 0 = Some 0xFE \<and> nth_opt cc 1 = Some 0xFF) \<and>
         (nth_opt cc 2 = Some 0 \<and> nth_opt c 3 = Some (ch CHR ''<'') \<and>
          nth_opt cc 4 = Some 0 \<and> nth_opt c 5 = Some (ch CHR ''?'') \<and>
          nth_opt cc 6 = Some 0 \<and> nth_opt c 7 = Some (ch CHR ''x''))
      then True
      else if (nth_opt cc 0 = Some 0xFF \<and> nth_opt cc 1 = Some 0xFE) \<and>
         (nth_opt c 2 = Some (ch CHR ''<'') \<and> nth_opt cc 3 = Some 0 \<and>
          nth_opt c 4 = Some (ch CHR ''?'') \<and> nth_opt cc 5 = Some 0)
      then True
      else if nth_opt cc 0 = Some 0x00 \<and> nth_opt cc 1 = Some 0x00 \<and>
         nth_opt cc 2 = Some 0xFE \<and> nth_opt cc 3 = Some 0xFF
      then True
      else if nth_opt cc 0 = Some 0xFF \<and> nth_opt cc 1 = Some 0xFE \<and>
         nth_opt cc 2 = Some 0x00 \<and> nth_opt cc 3 = Some 0x00
      then True
      else if nth_opt cc 0 = Some 0x25 \<and> nth_opt cc 1 = Some 0x50 \<and>
         nth_opt cc 2 = Some 0x44 \<and> nth_opt cc 3 = Some 0x46
      then True
      else if (nth_opt cc 0 = Some 0x89 \<and> nth_opt cc 1 = Some 0x50 \<and>
          nth_opt cc 2 = Some 0x4E \<and> nth_opt cc 3 = Some 0x47) \<or>
         (nth_opt cc 0 = Some 0xC2 \<and> nth_opt cc 1 = Some 0x89 \<and>
          nth_opt cc 2 = Some 0x50 \<and> nth_opt cc 3 = Some 0x4E)
      then True
      else if (nth_opt cc 0 = Some 0xFF \<and> nth_opt cc 1 = Some 0xD8 \<and> nth_opt cc 2 = Some 0xFF) \<and>
         (nth_opt cc 3 = Some 0xE0 \<or> nth_opt cc 3 = Some 0xEE \<or> nth_opt cc 3 = Some 0xE1)
      then True
      else if (nth_opt cc 0 = Some 0x52 \<and> nth_opt cc 1 = Some 0x49 \<and>
          nth_opt cc 2 = Some 0x46 \<and> nth_opt cc 3 = Some 0x46) \<and>
         (nth_opt cc 8 = Some 0x57 \<and> nth_opt cc 9 = Some 0x45 \<and>
          nth_opt cc 10 = Some 0x42 \<and> nth_opt cc 11 = Some 0x50)
      then True
      else if (nth_opt cc 0 = Some 0x50 \<and> nth_opt cc 1 = Some 0x4B \<and> nth_opt cc 2 = Some 0x03) \<and>
         (nth_opt cc 3 = Some 0x04 \<or> nth_opt cc 3 = Some 0x06)
      then True
      else if nth_opt c 0 = Some (ch CHR ''{'') \<or> nth_opt c 0 = Some (ch CHR ''['')
      then True
      else False)"

definition checkFileContent :: "content \<Rightarrow> jsstring option \<Rightarrow> bool" where
  "checkFileContent body enc =
     (if body = Null then False
      else sniffHead (contentHead body enc) (contentHeadBinary body enc))"


subsection \<open>Errors\<close>

datatype error_code =
    FILE_NOT_FOUND | FILE_ACCESS_DENIED | FILE_TOO_LARGE | FILE_INVALID | FILE_CONFLICT
  | PATH_TRAVERSAL | SECURITY_VIOLATION | EXPORT_FAILED | NETWORK_ERROR | TIMEOUT | UNKNOWN_ERROR

datatype error =
    FileError jsstring error_code jsstring  \<comment> \<open>message, code, file path\<close>
  | SystemError jsstring jsstring  \<comment> \<open>a failed file system call: errno name, path\<close>
  | Error jsstring  \<comment> \<open>a plain \<open>Error\<close> with its message\<close>


subsection \<open>The file system\<close>

text \<open>
  Files are held by path. A write stamps the file with the clock. \<open>writeDenied\<close> and
  \<open>readDenied\<close> say where opening for writing, respectively reading, fails. \<open>medium\<close>
  says what a later read returns for the \<open>n\<close>-th write of some data in some encoding: the
  data itself on a faithful medium and for an encoding that round-trips. The trace records
  the calls that change the disk, and the waits, oldest first.
\<close>

record stats =
  st_size :: nat
  st_mtimeMs :: real
  st_ctimeMs :: real

record file_node =
  f_content :: jsstring
  f_stats :: stats

datatype fs_event =
    Opened jsstring | Written jsstring jsstring | Synced jsstring | Closed jsstring
  | Unlinked jsstring | Renamed jsstring jsstring | Slept nat

record world =
  files :: "jsstring \<rightharpoonup> file_node"
  readDenied :: "jsstring \<Rightarrow> bool"
  writeDenied :: "jsstring \<Rightarrow> bool"
  medium :: "nat \<Rightarrow> jsstring \<Rightarrow> jsstring \<Rightarrow> jsstring"
  writes :: nat
  clock :: real
  trace :: "fs_event list"

definition fs_existsSync :: "world \<Rightarrow> jsstring \<Rightarrow> bool" where
  "fs_existsSync w p = (files w p \<noteq> None)"

definition fsProm_stat :: "world \<Rightarrow> jsstring \<Rightarrow> error + stats" where
  "fsProm_stat w p =
     (case files w p of None \<Rightarrow> Inl (SystemError (str ''ENOENT'') p) | Some f \<Rightarrow> Inr (f_stats f))"

definition fsProm_readFile :: "world \<Rightarrow> jsstring \<Rightarrow> jsstring \<Rightarrow> error + jsstring" where
  "fsProm_readFile w p enc =
     (case files w p of
        None \<Rightarrow> Inl (SystemError (str ''ENOENT'') p)
      | Some f \<Rightarrow> if readDenied w p then Inl (SystemError (str ''EACCES'') p) else Inr (f_content f))"

definition stamp :: "world \<Rightarrow> jsstring \<Rightarrow> file_node" where
  "stamp w content =
     \<lparr>f_content = content,
      f_stats = \<lparr>st_size = length (utf8_encode content), st_mtimeMs = clock w, st_ctimeMs = clock w\<rparr>\<rparr>"

definition fsProm_open :: "world \<Rightarrow> jsstring \<Rightarrow> (error + unit) \<times> world" where
  \<comment> \<open>always called with \<open>O_SYNC | O_CREAT | O_WRONLY | O_TRUNC\<close>: the file is created or
      emptied\<close>
  "fsProm_open w p =
     (if writeDenied w p then (Inl (SystemError (str ''EACCES'') p), w)
      else (Inr (), w\<lparr>files := (files w)(p \<mapsto> stamp w []), trace := trace w @ [Opened p]\<rparr>))"

definition fsProm_writeFile :: "world \<Rightarrow> jsstring \<Rightarrow> jsstring \<Rightarrow> jsstring \<Rightarrow> world" where
  "fsProm_writeFile w p d enc =
     w\<lparr>files := (files w)(p \<mapsto> stamp w (medium w (writes w) enc d)),
       writes := writes w + 1,
       trace := trace w @ [Written p d]\<rparr>"

definition fh_sync :: "world \<Rightarrow> jsstring \<Rightarrow> world" where
  "fh_sync w p = w\<lparr>trace := trace w @ [Synced p]\<rparr>"

definition fh_close :: "world \<Rightarrow> jsstring \<Rightarrow> world" where
  "fh_close w p = w\<lparr>trace := trace w @ [Closed p]\<rparr>"

definition fs_unlink :: "world \<Rightarrow> jsstring \<Rightarrow> world" where
  "fs_unlink w p = w\<lparr>files := (files w)(p := None), trace := trace w @ [Unlinked p]\<rparr>"

definition fsProm_rename :: "world \<Rightarrow> jsstring \<Rightarrow> jsstring \<Rightarrow> (error + unit) \<times> world" where
  "fsProm_rename w old new =
     (case files w old of
        None \<Rightarrow> (Inl (SystemError (str ''ENOENT'') old), w)
      | Some f \<Rightarrow>
          if writeDenied w new then (Inl (SystemError (str ''EACCES'') new), w)
          else (Inr (), w\<lparr>files := (files w)(old := None, new \<mapsto> f),
                           trace := trace w @ [Renamed old new]\<rparr>))"

definition setTimeout :: "nat \<Rightarrow> world \<Rightarrow> world" where
  "setTimeout ms w = w\<lparr>clock := clock w + real ms, trace := trace w @ [Slept ms]\<rparr>"

definition validateFileSize :: "world \<Rightarrow> jsstring \<Rightarrow> bool" where
  \<comment> \<open>always called with the default \<open>maxSize\<close>\<close>
  "validateFileSize w filePath =
     (if \<not> fs_existsSync w filePath then True
      else (case fsProm_stat w filePath of
              Inl e \<Rightarrow> False
            | Inr stats \<Rightarrow> if st_size stats > MAX_FILE_SIZE then False else True))"

subsection \<open>Saving\<close>

definition DRAFT_PREFEX :: jsstring where "DRAFT_PREFEX = str ''.$''"
definition OLD_DRAFT_PREFEX :: jsstring where "OLD_DRAFT_PREFEX = str ''~$''"
definition DRAFT_EXT :: jsstring where "DRAFT_EXT = str ''.dtmp''"
definition BKP_PREFEX :: jsstring where "BKP_PREFEX = str ''.$''"
definition OLD_BKP_PREFEX :: jsstring where "OLD_BKP_PREFEX = str ''~$''"
definition BKP_EXT :: jsstring where "BKP_EXT = str ''.bkp''"

record file_object =
  fo_path :: jsstring
  fo_encoding :: "jsstring option"

definition isConflict :: "stats option \<Rightarrow> stats option \<Rightarrow> bool" where
  "isConflict origStat stat =
     (case stat of
        None \<Rightarrow> False
      | Some s \<Rightarrow> (case origStat of None \<Rightarrow> False | Some os \<Rightarrow> st_mtimeMs s \<noteq> st_mtimeMs os))"

definition orElse :: "jsstring option \<Rightarrow> jsstring \<Rightarrow> jsstring" where
  \<comment> \<open>\<open>a || b\<close> on strings: \<open>undefined\<close> and the empty string are falsy\<close>
  "orElse a b = (case a of None \<Rightarrow> b | Some x \<Rightarrow> if x = [] then b else x)"

definition bkpPathOf :: "jsstring \<Rightarrow> jsstring" where
  "bkpPathOf p = path_join [path_dirname p, BKP_PREFEX @ path_basename p @ BKP_EXT]"

definition oldBkpPathOf :: "jsstring \<Rightarrow> jsstring" where
  "oldBkpPathOf p = path_join [path_dirname p, OLD_BKP_PREFEX @ path_basename p @ BKP_EXT]"

definition writeOnce :: "jsstring \<Rightarrow> jsstring \<Rightarrow> jsstring \<Rightarrow> world
    \<Rightarrow> (error + stats \<times> jsstring) \<times> world" where
  \<comment> \<open>one pass of the closure \<open>writeFile\<close> up to the comparison: open, write, sync, close
      (in \<open>finally\<close>; nothing to close when the open failed), then \<open>stat2\<close> and the
      read-back\<close>
  "writeOnce p d writeEnc w =
     (case fsProm_open w p of
        (Inl e, w1) \<Rightarrow> (Inl e, w1)
      | (Inr fh, w1) \<Rightarrow>
          let w2 = fsProm_writeFile w1 p d writeEnc;
              w3 = fh_sync w2 p;
              w4 = fh_close w3 p
          in (case fsProm_stat w4 p of
                Inl e \<Rightarrow> (Inl e, w4)
              | Inr stat2 \<Rightarrow>
                  (case fsProm_readFile w4 p writeEnc of
                     Inl e \<Rightarrow> (Inl e, w4)
                   | Inr writtenData \<Rightarrow> (Inr (stat2, writtenData), w4))))"

definition cleanupBackup :: "bool \<Rightarrow> jsstring \<Rightarrow> world \<Rightarrow> world" where
  \<comment> \<open>after a verified write: the legacy backup is unlinked when a backup was created\<close>
  "cleanupBackup backupCreated p w =
     (if backupCreated then
        (if fs_existsSync w (oldBkpPathOf p) then fs_unlink w (oldBkpPathOf p) else w)
      else w)"

function saveFile_writeFile :: "jsstring \<Rightarrow> jsstring \<Rightarrow> jsstring \<Rightarrow> bool \<Rightarrow> nat \<Rightarrow> world
    \<Rightarrow> (error + stats) \<times> world" where
  \<comment> \<open>the closure \<open>writeFile\<close>; \<open>retryCount\<close> and \<open>backupCreated\<close> are the variables it
      captures\<close>
  "saveFile_writeFile p d writeEnc backupCreated retryCount w =
     (case writeOnce p d writeEnc w of
        (Inl e, w') \<Rightarrow> (Inl e, w')
      | (Inr (stat2, writtenData), w') \<Rightarrow>
          if d \<noteq> writtenData then
            (if retryCount + 1 < 3
             then saveFile_writeFile p d writeEnc backupCreated (retryCount + 1)
                    (setTimeout (100 * (retryCount + 1)) w')
             else (Inl (FileError (str ''Write verification failed after retries'') FILE_INVALID p),
                   w'))
          else (Inr stat2, cleanupBackup backupCreated p w'))"
  by pat_completeness auto
termination
  by (relation "measure (\<lambda>(p, d, writeEnc, backupCreated, retryCount, w). 3 - retryCount)") auto

definition createBackup :: "jsstring \<Rightarrow> jsstring \<Rightarrow> world \<Rightarrow> bool \<times> world" where
  \<comment> \<open>the \<open>try\<close> block of \<open>doSaveFile\<close>: a failure is logged and leaves \<open>backupCreated\<close> false;
      \<open>finally\<close> closes the handle when the open succeeded. On a POSIX host \<open>isWin\<close> is
      false and nothing is spawned.\<close>
  "createBackup p writeEnc w =
     (case fsProm_readFile w p writeEnc of
        Inl e \<Rightarrow> (False, w)
      | Inr fileContent \<Rightarrow>
          (case fsProm_open w (bkpPathOf p) of
             (Inl e, w1) \<Rightarrow> (False, w1)
           | (Inr bkpFh, w1) \<Rightarrow>
               let w2 = fsProm_writeFile w1 (bkpPathOf p) fileContent writeEnc;
                   w3 = fh_sync w2 (bkpPathOf p)
               in (True, fh_close w3 (bkpPathOf p))))"

definition doSaveFile :: "jsstring \<Rightarrow> jsstring \<Rightarrow> jsstring \<Rightarrow> bool \<Rightarrow> bool \<Rightarrow> world
    \<Rightarrow> (error + stats) \<times> world" where
  "doSaveFile p d writeEnc enableStoreBkp isNew w =
     (let (backupCreated, w1) =
            (if enableStoreBkp \<and> \<not> isNew then createBackup p writeEnc w else (False, w))
      in saveFile_writeFile p d writeEnc backupCreated 0 w1)"

definition writeEncOf :: "jsstring option \<Rightarrow> file_object \<Rightarrow> jsstring" where
  \<comment> \<open>\<open>defEnc || fileObject.encoding || 'utf8'\<close>\<close>
  "writeEncOf defEnc fileObject = orElse defEnc (orElse (fo_encoding fileObject) (str ''utf8''))"

definition saveFile :: "process_env \<Rightarrow> file_object \<Rightarrow> jsstring \<Rightarrow> stats option \<Rightarrow> bool
    \<Rightarrow> jsstring option \<Rightarrow> bool \<Rightarrow> world \<Rightarrow> (error + stats) \<times> world" where
  "saveFile env fileObject d origStat overwrite defEnc enableStoreBkp w =
     (if \<not> isOutsideAppDir env (fo_path fileObject) then
        (Inl (FileError (str ''Cannot save to application directory'') SECURITY_VIOLATION
                (fo_path fileObject)), w)
      else if \<not> checkFileContent (Str d) None \<or> \<not> validateFileContent (Str d) then
        (Inl (FileError (str ''Invalid file data'') FILE_INVALID (fo_path fileObject)), w)
      else if \<not> validateFileSize w (fo_path fileObject) then
        (Inl (FileError (str ''File too large'') FILE_TOO_LARGE (fo_path fileObject)), w)
      else
        let writeEnc = writeEncOf defEnc fileObject
        in if overwrite then doSaveFile (fo_path fileObject) d writeEnc enableStoreBkp True w
           else
             let stat = (if fs_existsSync w (fo_path fileObject)
                         then (case fsProm_stat w (fo_path fileObject) of
                                 Inl e \<Rightarrow> None | Inr s \<Rightarrow> Some s)
                         else None)
             in if stat \<noteq> None \<and> isConflict origStat stat then
                  (Inl (FileError (str ''File conflict detected'') FILE_CONFLICT
                          (fo_path fileObject)), w)
                else doSaveFile (fo_path fileObject) d writeEnc enableStoreBkp (stat = None) w)"


subsection \<open>Drafts\<close>

function toDecimal :: "nat \<Rightarrow> jsstring" where
  \<comment> \<open>a counter inside a template literal\<close>
  "toDecimal n =
     (if n < 10 then [of_nat (48 + n)] else toDecimal (n div 10) @ [of_nat (48 + n mod 10)])"
  by pat_completeness auto
termination
  by (relation "measure id") auto

definition draftNameOf :: "jsstring \<Rightarrow> jsstring \<Rightarrow> jsstring \<Rightarrow> jsstring" where
  "draftNameOf prefex filePath uniquePart =
     path_join [path_dirname filePath, prefex @ path_basename filePath @ uniquePart @ DRAFT_EXT]"

record draft =
  d_data :: jsstring
  d_created :: real
  d_modified :: real
  d_path :: jsstring

partial_function (option) findDrafts ::
    "world \<Rightarrow> jsstring \<Rightarrow> jsstring option \<Rightarrow> nat \<Rightarrow> jsstring \<Rightarrow> jsstring list
      \<Rightarrow> jsstring list option" where
  \<comment> \<open>the first \<open>do ... while\<close> of \<open>getFileDrafts\<close>, from the top of its body; it ends at the
      first name that does not exist, if there is one\<close>
  "findDrafts w filePath draftFileName counter uniquePart draftsPaths =
     (if fs_existsSync w (draftNameOf DRAFT_PREFEX filePath uniquePart)
      then findDrafts w filePath (Some (draftNameOf DRAFT_PREFEX filePath uniquePart))
             (counter + 1) (str ''_'' @ toDecimal counter)
             (case draftFileName of None \<Rightarrow> draftsPaths | Some n \<Rightarrow> draftsPaths @ [n])
      else Some (case draftFileName of None \<Rightarrow> draftsPaths | Some n \<Rightarrow> draftsPaths @ [n]))"

partial_function (option) migrateOldDrafts ::
    "jsstring \<Rightarrow> nat \<Rightarrow> jsstring \<Rightarrow> jsstring list \<Rightarrow> world \<Rightarrow> (jsstring list \<times> world) option"
    where
  \<comment> \<open>the second \<open>do ... while\<close>: a failed rename is logged and the loop goes on\<close>
  "migrateOldDrafts filePath counter uniquePart draftsPaths w =
     (if fs_existsSync w (draftNameOf OLD_DRAFT_PREFEX filePath uniquePart)
      then
        (case fsProm_rename w (draftNameOf OLD_DRAFT_PREFEX filePath uniquePart)
                (draftNameOf DRAFT_PREFEX filePath uniquePart) of
           (Inl e, w1) \<Rightarrow>
             migrateOldDrafts filePath (counter + 1) (str ''_'' @ toDecimal counter) draftsPaths w1
         | (Inr u, w1) \<Rightarrow>
             migrateOldDrafts filePath (counter + 1) (str ''_'' @ toDecimal counter)
               (draftsPaths @ [draftNameOf DRAFT_PREFEX filePath uniquePart]) w1)
      else Some (draftsPaths, w))"

definition readDraft :: "world \<Rightarrow> jsstring \<Rightarrow> draft option" where
  \<comment> \<open>the body of the last loop: \<open>lstat\<close>, then \<open>readFile\<close>; \<open>None\<close> when either throws\<close>
  "readDraft w p =
     (case fsProm_stat w p of
        Inl e \<Rightarrow> None
      | Inr stat \<Rightarrow>
          (case fsProm_readFile w p (str ''utf8'') of
             Inl e \<Rightarrow> None
           | Inr d \<Rightarrow>
               Some \<lparr>d_data = d, d_created = st_ctimeMs stat, d_modified = st_mtimeMs stat,
                     d_path = p\<rparr>))"

definition getFileDrafts :: "file_object \<Rightarrow> world \<Rightarrow> (draft list \<times> world) option" where
  \<comment> \<open>the last loop is \<open>for (let i = 1; i < draftsPaths.length; i++)\<close>\<close>
  "getFileDrafts fileObject w =
     (case findDrafts w (fo_path fileObject) None 1 [] [] of
        None \<Rightarrow> None
      | Some draftsPaths \<Rightarrow>
          (case migrateOldDrafts (fo_path fileObject) 1 [] draftsPaths w of
             None \<Rightarrow> None
           | Some (draftsPaths', w') \<Rightarrow>
               Some (List.map_filter (readDraft w') (drop 1 draftsPaths'), w')))"

section \<open>IPC handlers\<close>










section \<open>The allow-list as a table\<close>

text \<open>
  The formats the content check is specified to accept, each with the leading bytes or
  characters that identify it and a canonical sample. An entry of a pattern fixes the code
  unit of \<open>head\<close>, or the byte of \<open>headBinary\<close>, at one index.
\<close>

datatype atom = Ch char | By byte

type_synonym magic = "(nat \<times> atom) list"

fun text_at :: "nat \<Rightarrow> string \<Rightarrow> magic" where
  "text_at i [] = []"
| "text_at i (x # xs) = (i, Ch x) # text_at (i + 1) xs"

fun bytes_at :: "nat \<Rightarrow> byte list \<Rightarrow> magic" where
  "bytes_at i [] = []"
| "bytes_at i (b # bs) = (i, By b) # bytes_at (i + 1) bs"

definition matchesMagic :: "jsstring \<Rightarrow> byte list \<Rightarrow> magic \<Rightarrow> bool" where
  "matchesMagic c cc m =
     list_all (\<lambda>(i, a). case a of Ch x \<Rightarrow> nth_opt c i = Some (ch x) | By b \<Rightarrow> nth_opt cc i = Some b) m"

definition recognizedFormats :: "(string \<times> magic \<times> content) list" where
  "recognizedFormats =
     [(''HTML doctype or comment'', text_at 0 ''<!'', Str (str ''<!DOCTYPE html>'')),
      (''HTML'', text_at 0 ''<html'', Str (str ''<html><body/></html>'')),
      (''HTML, upper case'', text_at 0 ''<HTML'', Str (str ''<HTML></HTML>'')),
      (''HTML body'', text_at 0 ''<body'', Str (str ''<body></body>'')),
      (''HTML body, upper case'', text_at 0 ''<BODY'', Str (str ''<BODY></BODY>'')),
      (''XML declaration'', text_at 0 ''<?xml'', Str (str ''<?xml version=\"1.0\"?>'')),
      (''SVG'', text_at 0 ''<svg'', Str (str ''<svg xmlns=\"http://www.w3.org/2000/svg\"/>'')),
      (''mx diagram markup'', text_at 0 ''<mx'', Str (str ''<mxfile><diagram/></mxfile>'')),
      (''img tag'', text_at 0 ''<img'', Str (str ''<img src=\"a.png\">'')),
      (''iframe tag'', text_at 0 ''<iframe'', Str (str ''<iframe></iframe>'')),
      (''UTF-8 byte order mark'', bytes_at 0 [0xEF, 0xBB, 0xBF] @ text_at 3 ''<?x'',
         Bytes [0xEF, 0xBB, 0xBF, 0x0A, 0x0A, 0x0A, 0x3C, 0x3F, 0x78, 0x6D, 0x6C]),
      (''UTF-16 BE byte order mark'',
         bytes_at 0 [0xFE, 0xFF, 0] @ text_at 3 ''<'' @ bytes_at 4 [0] @ text_at 5 ''?''
           @ bytes_at 6 [0] @ text_at 7 ''x'',
         Bytes [0xFE, 0xFF, 0, 0x3C, 0, 0x3F, 0, 0x78, 0, 0x6D, 0, 0x6C]),
      (''UTF-16 LE byte order mark'',
         bytes_at 0 [0xFF, 0xFE] @ text_at 2 ''<'' @ bytes_at 3 [0] @ text_at 4 ''?''
           @ bytes_at 5 [0],
         Bytes [0xFF, 0xFE, 0x3C, 0, 0x3F, 0, 0x78, 0, 0x6D, 0, 0x6C, 0]),
      (''UTF-32 BE byte order mark'', bytes_at 0 [0x00, 0x00, 0xFE, 0xFF],
         Bytes [0x00, 0x00, 0xFE, 0xFF, 0, 0, 0, 0x3C]),
      (''UTF-32 LE byte order mark'', bytes_at 0 [0xFF, 0xFE, 0x00, 0x00],
         Bytes [0xFF, 0xFE, 0x00, 0x00, 0x3C, 0, 0, 0]),
      (''PDF'', bytes_at 0 [0x25, 0x50, 0x44, 0x46], Bytes [0x25, 0x50, 0x44, 0x46, 0x2D, 0x31, 0x2E, 0x37]),
      (''PNG'', bytes_at 0 [0x89, 0x50, 0x4E, 0x47],
         Bytes [0x89, 0x50, 0x4E, 0x47, 0x0D, 0x0A, 0x1A, 0x0A]),
      (''PNG read as text'', bytes_at 0 [0xC2, 0x89, 0x50, 0x4E],
         Str [0x89, 0x50, 0x4E, 0x47, 0x0D, 0x0A, 0x1A, 0x0A]),
      (''JPEG, JFIF'', bytes_at 0 [0xFF, 0xD8, 0xFF, 0xE0], Bytes [0xFF, 0xD8, 0xFF, 0xE0, 0x00, 0x10]),
      (''JPEG, Adobe'', bytes_at 0 [0xFF, 0xD8, 0xFF, 0xEE], Bytes [0xFF, 0xD8, 0xFF, 0xEE, 0x00, 0x0E]),
      (''JPEG, Exif'', bytes_at 0 [0xFF, 0xD8, 0xFF, 0xE1], Bytes [0xFF, 0xD8, 0xFF, 0xE1, 0x00, 0x10]),
      (''WebP'', bytes_at 0 [0x52, 0x49, 0x46, 0x46] @ bytes_at 8 [0x57, 0x45, 0x42, 0x50],
         Bytes [0x52, 0x49, 0x46, 0x46, 0x24, 0, 0, 0, 0x57, 0x45, 0x42, 0x50, 0x56, 0x50, 0x38, 0x20]),
      (''ZIP'', bytes_at 0 [0x50, 0x4B, 0x03, 0x04], Bytes [0x50, 0x4B, 0x03, 0x04, 0x14, 0x00]),
      (''ZIP, alternative'', bytes_at 0 [0x50, 0x4B, 0x03, 0x06], Bytes [0x50, 0x4B, 0x03, 0x06, 0x14, 0x00]),
      (''JSON object'', text_at 0 ''{'', Str (str ''{\"a\": 1}'')),
      (''JSON array'', text_at 0 ''['', Str (str ''[1, 2]''))]"

section \<open>Vocabulary of the statements about paths\<close>

text \<open>
  The path a validator really looks at: the input with its control characters removed,
  normalized and resolved against the working directory. And what it means for a resolved
  path to lie under a directory.
\<close>

definition resolvedOf :: "process_env \<Rightarrow> jsstring \<Rightarrow> jsstring" where
  "resolvedOf env filePath = path_resolve (cwd env) (normalizePath filePath)"

definition liesUnder :: "jsstring \<Rightarrow> jsstring \<Rightarrow> bool" where
  \<comment> \<open>path \<open>r\<close> is the directory \<open>b\<close> or is inside it\<close>
  "liesUnder r b \<longleftrightarrow>
     r = b \<or> startsWith r (if b \<noteq> [] \<and> last b = CHAR_FORWARD_SLASH then b
                            else b @ [CHAR_FORWARD_SLASH])"

section \<open>Vocabulary of the statements about saving\<close>

text \<open>
  The waits recorded in a trace; the world after one durable write of a file (open, write,
  sync, close); and the error raised when the write verification gives up.
\<close>

fun sleepsOf :: "fs_event list \<Rightarrow> nat list" where
  "sleepsOf [] = []"
| "sleepsOf (Slept ms # t) = ms # sleepsOf t"
| "sleepsOf (e # t) = sleepsOf t"

definition written :: "jsstring \<Rightarrow> jsstring \<Rightarrow> jsstring \<Rightarrow> world \<Rightarrow> world" where
  "written p d enc w =
     w\<lparr>files := (files w)(p \<mapsto> stamp w (medium w (writes w) enc d)),
       writes := writes w + 1,
       trace := trace w @ [Opened p, Written p d, Synced p, Closed p]\<rparr>"

definition verificationFailed :: "jsstring \<Rightarrow> error" where
  "verificationFailed p = FileError (str ''Write verification failed after retries'') FILE_INVALID p"

section \<open>Example inputs\<close>





definition packagedEnv :: process_env where
  "packagedEnv =
     \<lparr>cwd = str ''/home/u'',
      securityModuleFile = str ''/opt/drawio/resources/app.asar/src/utils/security.js''\<rparr>"

definition oneDraftWorld :: world where
  "oneDraftWorld =
     \<lparr>files = [str ''/home/u/.$d.drawio.dtmp'' \<mapsto>
                 \<lparr>f_content = str ''<mxfile/>'',
                  f_stats = \<lparr>st_size = 9, st_mtimeMs = 5, st_ctimeMs = 5\<rparr>\<rparr>],
      readDenied = (\<lambda>p. False), writeDenied = (\<lambda>p. False), medium = (\<lambda>n enc d. d),
      writes = 0, clock = 10, trace = []\<rparr>"

definition diagramPath :: jsstring where
  "diagramPath = str ''/home/u/d.drawio''"

definition diagramFile :: file_object where
  "diagramFile = \<lparr>fo_path = diagramPath, fo_encoding = None\<rparr>"

definition diagramData :: jsstring where
  "diagramData = str ''<mxfile></mxfile>''"

definition savedWorld :: world where
  \<comment> \<open>the diagram is on disk, last written at time 2\<close>
  "savedWorld =
     \<lparr>files = [diagramPath \<mapsto>
                 \<lparr>f_content = str ''<mxfile/>'',
                  f_stats = \<lparr>st_size = 9, st_mtimeMs = 2, st_ctimeMs = 2\<rparr>\<rparr>],
      readDenied = (\<lambda>p. False), writeDenied = (\<lambda>p. False), medium = (\<lambda>n enc d. d),
      writes = 0, clock = 10, trace = []\<rparr>"

definition staleStat :: stats where
  "staleStat = \<lparr>st_size = 9, st_mtimeMs = 1, st_ctimeMs = 1\<rparr>"

definition lossyWorld :: world where
  \<comment> \<open>as \<open>savedWorld\<close>, on a medium that gives back nothing of what is written\<close>
  "lossyWorld = savedWorld\<lparr>medium := (\<lambda>n enc d. [])\<rparr>"

definition lockedBackupWorld :: world where
  \<comment> \<open>as \<open>savedWorld\<close>, with a backup sibling that cannot be opened for writing\<close>
  "lockedBackupWorld = savedWorld\<lparr>writeDenied := (\<lambda>p. p = str ''/home/u/.$d.drawio.bkp'')\<rparr>"

(*EXAMPLES*)

section \<open>Properties\<close>

declare saveFile_writeFile.simps [simp del]
declare toDecimal.simps [simp del]

lemmas path_eval =
  path_dirname_def path_join_def path_normalize_def path_resolve_def path_basename_def
  normalizeString_def isAbsolute_def endsWith_def normalizePath_def str_def Let_def

subsection \<open>The request listener\<close>









subsection \<open>Content sniffing\<close>

lemma if_True_or: "(if P then True else Q) = (P \<or> Q)"
  by simp

lemma sniffHead_allowlist:
  "sniffHead c cc \<longleftrightarrow> list_ex (\<lambda>(name, m, sample). matchesMagic c cc m) recognizedFormats"
  unfolding sniffHead_def if_True_or
  by (simp add: recognizedFormats_def matchesMagic_def conj_disj_distribL eval_nat_numeral)


lemma nth_opt_take: "nth_opt (take n xs) i = (if i < n then nth_opt xs i else None)"
proof (induction xs i arbitrary: n rule: nth_opt.induct)
  case (1 i)
  then show ?case by simp
next
  case (2 x xs)
  then show ?case by (cases n) simp_all
next
  case (3 x xs i)
  then show ?case by (cases n) simp_all
qed

lemma checkFileContent_iff_table:
  "checkFileContent body enc \<longleftrightarrow>
     body \<noteq> Null \<and>
     (\<exists>(name, m, sample) \<in> set recognizedFormats.
        matchesMagic (contentHead body enc) (contentHeadBinary body enc) m)"
  by (simp add: checkFileContent_def sniffHead_allowlist list_ex_iff)





lemma nth_opt_numeral [simp]: "nth_opt (x # xs) (numeral n) = nth_opt xs (pred_numeral n)"
  by (simp add: numeral_eq_Suc)

lemmas codec_eval =
  contentHead_def contentHeadBinary_def textDecode_def buffer_toString_def utf8_lead_def
  utf16_of_codepoint_def utf8_of_codepoint_def isHighSurrogate_def isLowSurrogate_def
  base64_decode_def unbase64_def







text \<open>
  C10, as stated, fails when the encoding argument is \<open>base64\<close>: the head is then the
  decoded text, not the string itself.
\<close>

theorem checkFileContent_json_counterexample:
  "nth_opt (str ''{}'') 0 = Some (ch CHR ''{'') \<and>
   \<not> checkFileContent (Str (str ''{}'')) (Some (str ''base64''))"
proof -
  have h: "contentHead (Str (str ''{}'')) (Some (str ''base64'')) = []"
    by (simp add: codec_eval str_def)
  have hb: "contentHeadBinary (Str (str ''{}'')) (Some (str ''base64'')) = []"
    by (simp add: codec_eval str_def)
  show ?thesis
    unfolding checkFileContent_def h hb
    by (simp add: sniffHead_def str_def ch_def)
qed

text \<open>
  C10, amended. For every string content whose first character is \<open>{\<close> or \<open>[\<close>, and
  every encoding argument other than \<open>base64\<close>, \<open>checkFileContent\<close> returns true
  whatever the rest of the content is.
\<close>

theorem checkFileContent_json_text:
  assumes "enc \<noteq> Some (str ''base64'')"
    and "nth_opt s 0 = Some (ch CHR ''{'') \<or> nth_opt s 0 = Some (ch CHR ''['')"
  shows "checkFileContent (Str s) enc"
proof -
  have "nth_opt (contentHead (Str s) enc) 0 = nth_opt s 0"
    using assms(1) by (simp add: contentHead_def nth_opt_take)
  with assms(2) show ?thesis
    unfolding checkFileContent_def sniffHead_def if_True_or by auto
qed

theorem checkFileContent_json_text_witness:
  "checkFileContent (Str (str ''{}'')) None \<and> checkFileContent (Str (str ''[1, 2]'')) (Some (str ''utf8''))"
proof -
  have a: "nth_opt (str ''{}'') 0 = Some (ch CHR ''{'')" by (simp add: str_def ch_def)
  have b: "nth_opt (str ''[1, 2]'') 0 = Some (ch CHR ''['')" by (simp add: str_def ch_def)
  have c: "Some (str ''utf8'') \<noteq> Some (str ''base64'')" by (simp add: str_def)
  show ?thesis
    using checkFileContent_json_text [of None "str ''{}''"]
          checkFileContent_json_text [of "Some (str ''utf8'')" "str ''[1, 2]''"] a b c
    by simp
qed

subsection \<open>Paths and file names\<close>

lemma startsWith_refl [simp]: "startsWith s s"
  by (induction s) simp_all

lemma startsWith_append: "startsWith s (p @ q) \<Longrightarrow> startsWith s p"
  by (induction s p rule: startsWith.induct) simp_all

lemma liesUnder_startsWith: "liesUnder r b \<Longrightarrow> startsWith r b"
  by (auto simp: liesUnder_def dest: startsWith_append split: if_splits)

lemma isOutsideAppDir_inside:
  "liesUnder (resolvedOf env filePath) (path_resolve (cwd env) (getAppBaseDir env)) \<Longrightarrow>
   \<not> isOutsideAppDir env filePath"
  by (simp add: isOutsideAppDir_def resolvedOf_def liesUnder_startsWith)

lemma packaged_appBaseDir: "getAppBaseDir packagedEnv = str ''/opt/drawio/''"
  by (simp add: getAppBaseDir_def packagedEnv_def path_eval)

lemma packaged_resolvedAppBase:
  "path_resolve (cwd packagedEnv) (getAppBaseDir packagedEnv) = str ''/opt/drawio''"
  unfolding packaged_appBaseDir by (simp add: packagedEnv_def path_eval)

text \<open>
  C2 says that \<open>isOutsideAppDir\<close> returns true for every path outside the installation
  directory, siblings whose name extends the directory's name included. The code compares
  with \<open>startsWith\<close> against the resolved base, which has lost its trailing separator:
  for the application installed in \<open>/opt/drawio\<close>, the path
  \<open>/opt/drawio-diagrams/plan.drawio\<close> resolves to itself, lies outside, and
  \<open>isOutsideAppDir\<close> returns false.
\<close>

theorem isOutsideAppDir_sibling:
  "path_resolve (cwd packagedEnv) (getAppBaseDir packagedEnv) = str ''/opt/drawio'' \<and>
   path_resolve (cwd packagedEnv) (normalizePath (str ''/opt/drawio-diagrams/plan.drawio''))
     = str ''/opt/drawio-diagrams/plan.drawio'' \<and>
   isOutsideAppDir packagedEnv (str ''/opt/drawio-diagrams/plan.drawio'') = False"
proof -
  have r: "path_resolve (cwd packagedEnv) (normalizePath (str ''/opt/drawio-diagrams/plan.drawio''))
     = str ''/opt/drawio-diagrams/plan.drawio''"
    by (simp add: packagedEnv_def path_eval)
  have "isOutsideAppDir packagedEnv (str ''/opt/drawio-diagrams/plan.drawio'') = False"
    unfolding isOutsideAppDir_def Let_def r packaged_resolvedAppBase
    by (simp add: str_def)
  with r packaged_resolvedAppBase show ?thesis by simp
qed

text \<open>
  C8, as stated, fails: the suspicious patterns are tested on the resolved path, where the
  \<open>..\<close> segments are already gone. The path below contains \<open>..\<close> and is accepted.
\<close>

theorem isValidPath_dotdot_counterexample:
  "str_includes (str ''/home/user/documents/../documents/a.drawio'') (str ''..'') \<and>
   isValidPath packagedEnv (str ''/home/user/documents/../documents/a.drawio'')
     [str ''/home/user/documents'']"
proof -
  have i: "str_includes (str ''/home/user/documents/../documents/a.drawio'') (str ''..'')"
    by (simp add: str_def)
  have r: "path_resolve (cwd packagedEnv)
             (normalizePath (str ''/home/user/documents/../documents/a.drawio''))
           = str ''/home/user/documents/a.drawio''"
    by (simp add: packagedEnv_def path_eval)
  have p: "path_resolve (cwd packagedEnv) (str ''/home/user/documents'') = str ''/home/user/documents''"
    by (simp add: packagedEnv_def path_eval)
  have n: "\<not> list_ex (\<lambda>pattern. regex_test pattern (str ''/home/user/documents/a.drawio''))
             SUSPICIOUS_PATTERNS"
    by (simp add: SUSPICIOUS_PATTERNS_def str_def toLowerAscii_def)
  have l: "\<not> length (str ''/home/user/documents/../documents/a.drawio'') > MAX_PATH_LENGTH"
    by (simp add: MAX_PATH_LENGTH_def str_def)
  have "isValidPath packagedEnv (str ''/home/user/documents/../documents/a.drawio'')
     [str ''/home/user/documents'']"
    unfolding isValidPath_def Let_def r using l n
    by (simp add: p) (simp add: str_def)
  with i show ?thesis by simp
qed

text \<open>
  C8, amended. \<open>isValidPath\<close> returns true only if the path has at most 4096 code units,
  its resolved form matches none of the suspicious patterns and begins with one of the
  resolved allowed prefixes; it does return true when, besides the first two conditions,
  the resolved form lies under one of the resolved allowed prefixes. In particular it
  returns false for every path whose resolved form contains \<open>..\<close>.
\<close>

theorem isValidPath_resolved:
  "(isValidPath env filePath allowedPrefixes \<longrightarrow>
      length filePath \<le> 4096 \<and>
      \<not> (\<exists>pattern \<in> set SUSPICIOUS_PATTERNS. regex_test pattern (resolvedOf env filePath)) \<and>
      (\<exists>prefix \<in> set allowedPrefixes.
         startsWith (resolvedOf env filePath) (path_resolve (cwd env) prefix))) \<and>
   (length filePath \<le> 4096 \<and>
    \<not> (\<exists>pattern \<in> set SUSPICIOUS_PATTERNS. regex_test pattern (resolvedOf env filePath)) \<and>
    (\<exists>prefix \<in> set allowedPrefixes.
       liesUnder (resolvedOf env filePath) (path_resolve (cwd env) prefix)) \<longrightarrow>
      isValidPath env filePath allowedPrefixes) \<and>
   (str_includes (resolvedOf env filePath) (str ''..'') \<longrightarrow>
      \<not> isValidPath env filePath allowedPrefixes)"
proof -
  have dots: "Regex (str ''..'') False \<in> set SUSPICIOUS_PATTERNS"
    by (simp add: SUSPICIOUS_PATTERNS_def)
  have eq: "isValidPath env filePath allowedPrefixes \<longleftrightarrow>
      length filePath \<le> 4096 \<and>
      \<not> (\<exists>pattern \<in> set SUSPICIOUS_PATTERNS. regex_test pattern (resolvedOf env filePath)) \<and>
      (\<exists>prefix \<in> set allowedPrefixes.
         startsWith (resolvedOf env filePath) (path_resolve (cwd env) prefix))"
    by (auto simp: isValidPath_def resolvedOf_def MAX_PATH_LENGTH_def list_ex_iff Let_def)
  have three: "str_includes (resolvedOf env filePath) (str ''..'') \<longrightarrow>
      \<not> isValidPath env filePath allowedPrefixes"
    unfolding eq using dots by (metis regex_test.simps)
  from eq three show ?thesis
    by (meson liesUnder_startsWith)
qed

lemma plain_resolved:
  "resolvedOf packagedEnv (str ''/home/user/documents/a.drawio'') = str ''/home/user/documents/a.drawio''"
  by (simp add: resolvedOf_def packagedEnv_def path_eval)

lemma odd_resolved:
  "resolvedOf packagedEnv (str ''/home/user/documents/a..b'') = str ''/home/user/documents/a..b''"
  by (simp add: resolvedOf_def packagedEnv_def path_eval)

lemma documents_resolved:
  "path_resolve (cwd packagedEnv) (str ''/home/user/documents'') = str ''/home/user/documents''"
  by (simp add: packagedEnv_def path_eval)

theorem isValidPath_resolved_witness:
  "isValidPath packagedEnv (str ''/home/user/documents/a.drawio'') [str ''/home/user/documents''] \<and>
   \<not> isValidPath packagedEnv (str ''/home/user/documents/a..b'') [str ''/home/user/documents'']"
proof -
  have l: "length (str ''/home/user/documents/a.drawio'') \<le> 4096"
    by (simp add: str_def)
  have n: "\<not> (\<exists>pattern \<in> set SUSPICIOUS_PATTERNS.
             regex_test pattern (str ''/home/user/documents/a.drawio''))"
    by (simp add: SUSPICIOUS_PATTERNS_def str_def toLowerAscii_def)
  have u: "liesUnder (str ''/home/user/documents/a.drawio'') (str ''/home/user/documents'')"
    by (simp add: liesUnder_def str_def)
  have d: "str_includes (str ''/home/user/documents/a..b'') (str ''..'')"
    by (simp add: str_def)
  show ?thesis
    using isValidPath_resolved [of packagedEnv "str ''/home/user/documents/a.drawio''"
            "[str ''/home/user/documents'']"]
          isValidPath_resolved [of packagedEnv "str ''/home/user/documents/a..b''"
            "[str ''/home/user/documents'']"]
          l n u d
    by (simp add: plain_resolved odd_resolved documents_resolved)
qed

lemma collapseWhitespace_replicate:
  "\<not> isWhiteSpace a \<Longrightarrow>
   collapseWhitespace (replicate n a @ xs) = replicate n a @ collapseWhitespace xs"
  by (induction n) auto

lemma dropWhile_replicate_keep:
  "\<not> P a \<Longrightarrow> 0 < n \<Longrightarrow> dropWhile P (replicate n a @ xs) = replicate n a @ xs"
  by (cases n) auto

lemma sanitizeFilename_long:
  "sanitizeFilename (replicate 254 0x61 @ str '' b'') = replicate 254 0x61 @ str '' ''"
proof -
  have a: "\<not> isWhiteSpace 0x61" and b: "\<not> isWhiteSpace 0x62" and sp: "isWhiteSpace 0x20"
    by (simp_all add: isWhiteSpace_def)
  have s12: "filter (\<lambda>c. c \<notin> set (str ''<>:\"|?*''))
               (filter (\<lambda>c. c \<noteq> CHAR_FORWARD_SLASH \<and> c \<noteq> CHAR_BACKWARD_SLASH)
                  (replicate 254 0x61 @ str '' b'')) = replicate 254 0x61 @ [0x20, 0x62]"
    by (simp add: str_def)
  have s3: "collapseWhitespace (replicate 254 0x61 @ [0x20, 0x62]) = replicate 254 0x61 @ [0x20, 0x62]"
    by (simp add: collapseWhitespace_replicate a b sp)
  have s4: "trim (replicate 254 0x61 @ [0x20, 0x62]) = replicate 254 0x61 @ [0x20, 0x62]"
    by (simp add: trim_def dropWhile_replicate_keep a b)
  have s5: "take 255 (replicate 254 (0x61::jschar) @ [0x20, 0x62]) = replicate 254 0x61 @ [0x20]"
    by simp
  have nd: "\<not> list_all (\<lambda>c. c = CHAR_DOT) (replicate 254 (0x61::jschar) @ [0x20])"
    by simp
  show ?thesis
    unfolding sanitizeFilename_def Let_def s12 s3 s4
    using s5 nd by (simp add: str_def)
qed

lemma sanitizeFilename_again:
  "sanitizeFilename (replicate 254 0x61 @ str '' '') = replicate 254 0x61"
proof -
  have a: "\<not> isWhiteSpace 0x61" and sp: "isWhiteSpace 0x20"
    by (simp_all add: isWhiteSpace_def)
  have s12: "filter (\<lambda>c. c \<notin> set (str ''<>:\"|?*''))
               (filter (\<lambda>c. c \<noteq> CHAR_FORWARD_SLASH \<and> c \<noteq> CHAR_BACKWARD_SLASH)
                  (replicate 254 0x61 @ str '' '')) = replicate 254 0x61 @ [0x20]"
    by (simp add: str_def)
  have s3: "collapseWhitespace (replicate 254 0x61 @ [0x20]) = replicate 254 0x61 @ [0x20]"
    by (simp add: collapseWhitespace_replicate a sp)
  have s4: "trim (replicate 254 0x61 @ [0x20]) = replicate 254 0x61"
    by (simp add: trim_def dropWhile_replicate_keep [where xs = "[]", simplified] a sp)
  have nd: "\<not> list_all (\<lambda>c. c = CHAR_DOT) (replicate 254 (0x61::jschar))"
    by (simp add: list_all_iff)
  show ?thesis
    unfolding sanitizeFilename_def Let_def s12 s3 s4
    using nd by simp
qed

text \<open>
  C9 says that \<open>sanitizeFilename\<close> is idempotent. The code trims before it truncates,
  so a name cut at 255 code units can end in a space, which a second call removes: for 254
  letters \<open>a\<close> followed by a space and \<open>b\<close>, the first call keeps the 254 letters and
  the space, the second call keeps the 254 letters only.
\<close>

theorem sanitizeFilename_not_idempotent:
  "sanitizeFilename (replicate 254 0x61 @ str '' b'') = replicate 254 0x61 @ str '' '' \<and>
   sanitizeFilename (sanitizeFilename (replicate 254 0x61 @ str '' b'')) = replicate 254 0x61 \<and>
   sanitizeFilename (sanitizeFilename (replicate 254 0x61 @ str '' b''))
     \<noteq> sanitizeFilename (replicate 254 0x61 @ str '' b'')"
  unfolding sanitizeFilename_long sanitizeFilename_again
  by (simp add: str_def)

subsection \<open>Drafts\<close>

lemma draftName_0:
  "draftNameOf DRAFT_PREFEX (str ''/home/u/d.drawio'') [] = str ''/home/u/.$d.drawio.dtmp''"
  by (simp add: draftNameOf_def DRAFT_PREFEX_def DRAFT_EXT_def path_eval)

lemma draftName_1:
  "draftNameOf DRAFT_PREFEX (str ''/home/u/d.drawio'') (str ''_'' @ toDecimal (Suc 0))
     = str ''/home/u/.$d.drawio_1.dtmp''"
  by (simp add: draftNameOf_def DRAFT_PREFEX_def DRAFT_EXT_def path_eval toDecimal.simps)

lemma oldDraftName_0:
  "draftNameOf OLD_DRAFT_PREFEX (str ''/home/u/d.drawio'') [] = str ''/home/u/~$d.drawio.dtmp''"
  by (simp add: draftNameOf_def OLD_DRAFT_PREFEX_def DRAFT_EXT_def path_eval)

lemma oneDraftWorld_exists:
  "fs_existsSync oneDraftWorld (str ''/home/u/.$d.drawio.dtmp'')"
  "\<not> fs_existsSync oneDraftWorld (str ''/home/u/.$d.drawio_1.dtmp'')"
  "\<not> fs_existsSync oneDraftWorld (str ''/home/u/~$d.drawio.dtmp'')"
  by (simp_all add: fs_existsSync_def oneDraftWorld_def str_def)

lemma oneDraftWorld_findDrafts:
  "findDrafts oneDraftWorld (str ''/home/u/d.drawio'') None (Suc 0) [] []
     = Some [str ''/home/u/.$d.drawio.dtmp'']"
  apply (subst findDrafts.simps)
  apply (simp add: draftName_0 oneDraftWorld_exists)
  apply (subst findDrafts.simps)
  apply (simp add: draftName_1 oneDraftWorld_exists)
  done

lemma oneDraftWorld_migrate:
  "migrateOldDrafts (str ''/home/u/d.drawio'') (Suc 0) [] ds oneDraftWorld = Some (ds, oneDraftWorld)"
  apply (subst migrateOldDrafts.simps)
  apply (simp add: oldDraftName_0 oneDraftWorld_exists)
  done

text \<open>
  C7 says that a file with exactly one existing draft sibling gets that draft back. The
  read loop starts at index 1 although the list of paths no longer begins with an empty
  slot: the draft exists and can be read, and \<open>getFileDrafts\<close> returns the empty list.
\<close>

theorem getFileDrafts_skips_first:
  "fs_existsSync oneDraftWorld (str ''/home/u/.$d.drawio.dtmp'') \<and>
   readDraft oneDraftWorld (str ''/home/u/.$d.drawio.dtmp'')
     = Some \<lparr>d_data = str ''<mxfile/>'', d_created = 5, d_modified = 5,
             d_path = str ''/home/u/.$d.drawio.dtmp''\<rparr> \<and>
   getFileDrafts \<lparr>fo_path = str ''/home/u/d.drawio'', fo_encoding = None\<rparr> oneDraftWorld
     = Some ([], oneDraftWorld)"
proof -
  have r: "readDraft oneDraftWorld (str ''/home/u/.$d.drawio.dtmp'')
     = Some \<lparr>d_data = str ''<mxfile/>'', d_created = 5, d_modified = 5,
             d_path = str ''/home/u/.$d.drawio.dtmp''\<rparr>"
    by (simp add: readDraft_def fsProm_stat_def fsProm_readFile_def oneDraftWorld_def)
  have g: "getFileDrafts \<lparr>fo_path = str ''/home/u/d.drawio'', fo_encoding = None\<rparr> oneDraftWorld
     = Some ([], oneDraftWorld)"
    by (simp add: getFileDrafts_def oneDraftWorld_findDrafts oneDraftWorld_migrate
          List.map_filter_simps)
  from r g oneDraftWorld_exists(1) show ?thesis by simp
qed

subsection \<open>Saving\<close>



lemma written_simps [simp]:
  "writeDenied (written p d enc w) = writeDenied w"
  "readDenied (written p d enc w) = readDenied w"
  "medium (written p d enc w) = medium w"
  "writes (written p d enc w) = writes w + 1"
  "clock (written p d enc w) = clock w"
  "trace (written p d enc w) = trace w @ [Opened p, Written p d, Synced p, Closed p]"
  "files (written p d enc w) = (files w)(p \<mapsto> stamp w (medium w (writes w) enc d))"
  by (simp_all add: written_def)

lemma setTimeout_simps [simp]:
  "writeDenied (setTimeout ms w) = writeDenied w"
  "readDenied (setTimeout ms w) = readDenied w"
  "medium (setTimeout ms w) = medium w"
  "writes (setTimeout ms w) = writes w"
  "clock (setTimeout ms w) = clock w + real ms"
  "trace (setTimeout ms w) = trace w @ [Slept ms]"
  "files (setTimeout ms w) = files w"
  by (simp_all add: setTimeout_def)

lemma cleanupBackup_simps [simp]:
  "writeDenied (cleanupBackup bc p w) = writeDenied w"
  "readDenied (cleanupBackup bc p w) = readDenied w"
  "medium (cleanupBackup bc p w) = medium w"
  "writes (cleanupBackup bc p w) = writes w"
  "clock (cleanupBackup bc p w) = clock w"
  by (simp_all add: cleanupBackup_def fs_unlink_def)


lemma sleepsOf_append [simp]: "sleepsOf (a @ b) = sleepsOf a @ sleepsOf b"
  by (induction a rule: sleepsOf.induct) simp_all


lemma diagramPath_outside: "isOutsideAppDir packagedEnv diagramPath"
proof -
  have r: "path_resolve (cwd packagedEnv) (normalizePath diagramPath) = str ''/home/u/d.drawio''"
    by (simp add: packagedEnv_def diagramPath_def path_eval)
  show ?thesis
    unfolding isOutsideAppDir_def Let_def r packaged_resolvedAppBase
    by (simp add: str_def)
qed

lemma diagramData_checked: "checkFileContent (Str diagramData) None"
  unfolding diagramData_def
  by (simp add: checkFileContent_iff_table recognizedFormats_def matchesMagic_def contentHead_def
        str_def ch_def)

lemma diagramData_valid: "validateFileContent (Str diagramData)"
  by (simp add: validateFileContent_def diagramData_def MAX_FILE_SIZE_def SUSPICIOUS_PATTERNS_def
        str_def toLowerAscii_def utf8_of_codepoint_def isHighSurrogate_def isLowSurrogate_def)

lemma savedWorld_size: "validateFileSize savedWorld diagramPath"
  by (simp add: validateFileSize_def fs_existsSync_def fsProm_stat_def savedWorld_def
        MAX_FILE_SIZE_def)

lemma hello_not_checked: "\<not> checkFileContent (Str (str ''hello'')) None"
  by (simp add: checkFileContent_iff_table recognizedFormats_def matchesMagic_def codec_eval
        str_def ch_def)

text \<open>
  C3, as stated, fails when the call does not pass the checks that precede the conflict
  check: with content that fails the content check, the same call raises \<open>FILE_INVALID\<close>.
\<close>

theorem saveFile_conflict_counterexample:
  "files savedWorld (fo_path diagramFile)
     = Some \<lparr>f_content = str ''<mxfile/>'',
             f_stats = \<lparr>st_size = 9, st_mtimeMs = 2, st_ctimeMs = 2\<rparr>\<rparr> \<and>
   st_mtimeMs staleStat \<noteq> 2 \<and>
   fst (saveFile packagedEnv diagramFile (str ''hello'') (Some staleStat) False None True savedWorld)
     = Inl (FileError (str ''Invalid file data'') FILE_INVALID diagramPath)"
  using diagramPath_outside hello_not_checked
  by (simp add: saveFile_def diagramFile_def savedWorld_def staleStat_def)

text \<open>
  C3, amended. For every \<open>saveFile\<close> call with \<open>overwrite = false\<close>, a prior stat and an
  existing target whose \<open>mtimeMs\<close> differs from the prior stat's, the call raises an error
  and leaves the file system as it was (no write, no backup); the error is
  \<open>FILE_CONFLICT\<close> whenever the call passes the path, content and size checks, which come
  first.
\<close>

theorem saveFile_conflict:
  assumes "files w (fo_path fo) = Some f"
    and "origStat = Some os"
    and "st_mtimeMs (f_stats f) \<noteq> st_mtimeMs os"
  shows "snd (saveFile env fo d origStat False defEnc enableStoreBkp w) = w \<and>
         (\<exists>e. fst (saveFile env fo d origStat False defEnc enableStoreBkp w) = Inl e) \<and>
         (isOutsideAppDir env (fo_path fo) \<and> checkFileContent (Str d) None \<and>
          validateFileContent (Str d) \<and> validateFileSize w (fo_path fo) \<longrightarrow>
            fst (saveFile env fo d origStat False defEnc enableStoreBkp w)
              = Inl (FileError (str ''File conflict detected'') FILE_CONFLICT (fo_path fo)))"
  using assms
  by (simp add: saveFile_def fs_existsSync_def fsProm_stat_def isConflict_def Let_def)

theorem saveFile_conflict_witness:
  "snd (saveFile packagedEnv diagramFile diagramData (Some staleStat) False None True savedWorld)
     = savedWorld \<and>
   fst (saveFile packagedEnv diagramFile diagramData (Some staleStat) False None True savedWorld)
     = Inl (FileError (str ''File conflict detected'') FILE_CONFLICT diagramPath)"
proof -
  have f: "files savedWorld (fo_path diagramFile)
     = Some \<lparr>f_content = str ''<mxfile/>'',
             f_stats = \<lparr>st_size = 9, st_mtimeMs = 2, st_ctimeMs = 2\<rparr>\<rparr>"
    by (simp add: savedWorld_def diagramFile_def)
  have m: "st_mtimeMs (f_stats \<lparr>f_content = str ''<mxfile/>'',
             f_stats = \<lparr>st_size = 9, st_mtimeMs = 2, st_ctimeMs = 2\<rparr>\<rparr>) \<noteq> st_mtimeMs staleStat"
    by (simp add: staleStat_def)
  have p: "fo_path diagramFile = diagramPath"
    by (simp add: diagramFile_def)
  show ?thesis
    using saveFile_conflict [OF f refl m, of packagedEnv diagramData None True]
      diagramPath_outside diagramData_checked diagramData_valid savedWorld_size
    by (simp add: p)
qed

lemma stamp_simps [simp]:
  "f_content (stamp w c) = c"
  "st_mtimeMs (f_stats (stamp w c)) = clock w"
  by (simp_all add: stamp_def)



lemma systemError_not_verification [simp]:
  "SystemError c q \<noteq> verificationFailed p"
  by (simp add: verificationFailed_def)





lemma messages_differ [simp]:
  "FileError (str ''Cannot save to application directory'') c p \<noteq> verificationFailed q"
  "FileError (str ''Invalid file data'') c p \<noteq> verificationFailed q"
  "FileError (str ''File too large'') c p \<noteq> verificationFailed q"
  "FileError (str ''File conflict detected'') c p \<noteq> verificationFailed q"
  by (simp_all add: verificationFailed_def str_def)





lemma diagram_oldBkpPath: "oldBkpPathOf diagramPath = str ''/home/u/~$d.drawio.bkp''"
  by (simp add: oldBkpPathOf_def diagramPath_def OLD_BKP_PREFEX_def BKP_EXT_def path_eval)

lemma savedWorld_fields [simp]:
  "files savedWorld diagramPath
     = Some \<lparr>f_content = str ''<mxfile/>'',
             f_stats = \<lparr>st_size = 9, st_mtimeMs = 2, st_ctimeMs = 2\<rparr>\<rparr>"
  "readDenied savedWorld = (\<lambda>p. False)"
  "writeDenied savedWorld = (\<lambda>p. False)"
  "medium savedWorld = (\<lambda>n enc d. d)"
  "trace savedWorld = []"
  "clock savedWorld = 10"
  by (simp_all add: savedWorld_def)


lemma lossyWorld_fields [simp]:
  "files lossyWorld = files savedWorld"
  "readDenied lossyWorld = (\<lambda>p. False)"
  "writeDenied lossyWorld = (\<lambda>p. False)"
  "medium lossyWorld = (\<lambda>n enc d. [])"
  "trace lossyWorld = []"
  by (simp_all add: lossyWorld_def savedWorld_def)




lemma lockedBackupWorld_fields [simp]:
  "files lockedBackupWorld = files savedWorld"
  "readDenied lockedBackupWorld = (\<lambda>p. False)"
  "writeDenied lockedBackupWorld = (\<lambda>p. p = str ''/home/u/.$d.drawio.bkp'')"
  "medium lockedBackupWorld = (\<lambda>n enc d. d)"
  "trace lockedBackupWorld = []"
  by (simp_all add: lockedBackupWorld_def savedWorld_def)



lemma oldBackup_absent [simp]:
  "\<not> fs_existsSync (written diagramPath d enc savedWorld) (oldBkpPathOf diagramPath)"
  "\<not> fs_existsSync (written diagramPath d enc lockedBackupWorld) (oldBkpPathOf diagramPath)"
  unfolding diagram_oldBkpPath
  by (simp_all add: fs_existsSync_def savedWorld_def diagramPath_def str_def)




end
